theory Spec2Isabelle
  imports Main "HOL-Library.Char_ord" "HOL-Library.List_Lexorder" "HOL-Library.Multiset"
    "HOL-Library.AList"
begin

section \<open>Text and characters\<close>

text \<open>
  Python's \<open>str\<close> is a sequence of code points. The model uses \<^typ>\<open>string\<close>, whose
  characters are the code points \<open>0 .. 255\<close>; it is exact for texts that stay in that
  range. The order on strings is the lexicographic order on code points, which is how
  Python compares \<open>str\<close> values.
\<close>

definition nl :: char where
  "nl = CHR 0x0A"

text \<open>
  The class \<open>\s\<close> of a \<open>str\<close> pattern: the code points for which
  \<open>str.isspace\<close> holds. Below 256 these are TAB, LF, VT, FF, CR, the separators
  \<open>0x1C .. 0x1F\<close>, the space, NEL (\<open>0x85\<close>) and the no-break space (\<open>0xA0\<close>).
\<close>

definition is_space :: "char \<Rightarrow> bool" where
  "is_space c = ((of_char c :: nat) \<in> {9, 10, 11, 12, 13, 28, 29, 30, 31, 32, 133, 160})"

text \<open>\<open>.\<close> without \<open>re.DOTALL\<close>: every character but the line feed.\<close>

definition not_nl :: "char \<Rightarrow> bool" where
  "not_nl c = (c \<noteq> nl)"

text \<open>\<open>[^<]\<close>\<close>

definition not_lt :: "char \<Rightarrow> bool" where
  "not_lt c = (c \<noteq> CHR ''<'')"


text \<open>
  \<open>sep.join(parts)\<close> and \<open>s.split(sep)\<close> for a one-character separator. \<open>split\<close>
  cuts at every occurrence of the separator and always returns at least one part.
\<close>

fun join :: "string \<Rightarrow> string list \<Rightarrow> string" where
  "join sep [] = []"
| "join sep [x] = x"
| "join sep (x # y # ys) = x @ sep @ join sep (y # ys)"

fun split :: "char \<Rightarrow> string \<Rightarrow> string list" where
  "split sep [] = [[]]"
| "split sep (c # cs) =
     (if c = sep then [] # split sep cs
      else (c # hd (split sep cs)) # tl (split sep cs))"

text \<open>\<open>s.endswith(sfx)\<close>\<close>

definition endswith :: "string \<Rightarrow> string \<Rightarrow> bool" where
  "endswith s sfx = (length sfx \<le> length s \<and> drop (length s - length sfx) s = sfx)"

text \<open>\<open>str(n)\<close> for a non-negative integer: its decimal digits.\<close>

fun str_nat :: "nat \<Rightarrow> string" where
  "str_nat n =
     (if n < 10 then [char_of (48 + n)] else str_nat (n div 10) @ [char_of (48 + n mod 10)])"

declare str_nat.simps [simp del]

section \<open>Regular expressions\<close>

text \<open>
  The patterns of the program are sequences of literal characters, greedy repetitions
  of a character class, one capturing group and the anchor \<open>$\<close>. A pattern is a list
  of such atoms. \<open>Rep P lo hi\<close> repeats the class \<open>P\<close> at least \<open>lo\<close> and at most
  \<open>hi\<close> times (\<open>None\<close>: unbounded), so \<open>*\<close> is \<open>Rep P 0 None\<close>, \<open>+\<close> is
  \<open>Rep P 1 None\<close> and \<open>{m,n}\<close> is \<open>Rep P m (Some n)\<close>.
\<close>

datatype atom =
    Chr char
  | Rep "char \<Rightarrow> bool" nat "nat option"
  | GOpen
  | GClose
  | Dollar

definition lit :: "string \<Rightarrow> atom list" where
  "lit s = map Chr s"

fun first_some :: "'a option list \<Rightarrow> 'a option" where
  "first_some [] = None"
| "first_some (x # xs) = (case x of Some y \<Rightarrow> Some y | None \<Rightarrow> first_some xs)"

text \<open>The most repetitions a greedy \<open>Rep P lo hi\<close> can take at the start of \<open>s\<close>.\<close>

definition rep_max :: "(char \<Rightarrow> bool) \<Rightarrow> nat option \<Rightarrow> string \<Rightarrow> nat" where
  "rep_max P hi s =
     (let n = length (takeWhile P s) in case hi of None \<Rightarrow> n | Some h \<Rightarrow> min n h)"

text \<open>
  The backtracking matcher. \<open>rmatch as s g gs\<close> matches the atoms \<open>as\<close> at the start
  of \<open>s\<close>; \<open>g\<close> is the text that remained when the group was opened and \<open>gs\<close> the
  groups closed so far. The result is the text left after the match, with the groups.
  A greedy repetition first takes as many characters as it can and gives them back one
  at a time, down to its lower bound, until the rest of the pattern matches. \<open>$\<close>
  matches at the end of the text and just before a line feed that ends the text.
\<close>

fun rmatch :: "atom list \<Rightarrow> string \<Rightarrow> string \<Rightarrow> string list \<Rightarrow> (string \<times> string list) option" where
  "rmatch [] s g gs = Some (s, gs)"
| "rmatch (Chr c # as) s g gs =
     (case s of [] \<Rightarrow> None | x # xs \<Rightarrow> if x = c then rmatch as xs g gs else None)"
| "rmatch (Rep P lo hi # as) s g gs =
     first_some (map (\<lambda>k. rmatch as (drop k s) g gs) (rev [lo..<Suc (rep_max P hi s)]))"
| "rmatch (GOpen # as) s g gs = rmatch as s s gs"
| "rmatch (GClose # as) s g gs = rmatch as s g (gs @ [take (length g - length s) g])"
| "rmatch (Dollar # as) s g gs = (if s = [] \<or> s = [nl] then rmatch as s g gs else None)"

text \<open>
  \<open>re.search\<close>: the match at the leftmost position that has one. The result is the
  text before the match, the matched text, the text after it, and the groups.
\<close>

type_synonym rmatch_result = "string \<times> string \<times> string \<times> string list"

fun re_search :: "atom list \<Rightarrow> string \<Rightarrow> rmatch_result option" where
  "re_search rx [] =
     (case rmatch rx [] [] [] of
        Some (r, gs) \<Rightarrow> Some ([], [], r, gs)
      | None \<Rightarrow> None)"
| "re_search rx (c # cs) =
     (case rmatch rx (c # cs) [] [] of
        Some (r, gs) \<Rightarrow> Some ([], take (length (c # cs) - length r) (c # cs), r, gs)
      | None \<Rightarrow>
          (case re_search rx cs of
             None \<Rightarrow> None
           | Some (pre, mid, post, gs) \<Rightarrow> Some (c # pre, mid, post, gs)))"

text \<open>The text a match leaves behind is a suffix of the text it started on.\<close>

lemma first_some_SomeD: "first_some xs = Some y \<Longrightarrow> Some y \<in> set xs"
  by (induction xs) (auto split: option.splits)

lemma rmatch_suffix: "rmatch as s g gs = Some (r, gs') \<Longrightarrow> \<exists>m. s = m @ r"
proof (induction as s g gs arbitrary: r gs' rule: rmatch.induct)
  case (1 s g gs)
  then show ?case by simp
next
  case (2 c as s g gs)
  from "2.prems" obtain xs where s: "s = c # xs" and m: "rmatch as xs g gs = Some (r, gs')"
    by (auto split: list.splits if_splits)
  from "2.IH" [OF s refl m] obtain m' where "xs = m' @ r" by blast
  with s have "s = (c # m') @ r" by simp
  then show ?case by blast
next
  case (3 P lo hi as s g gs)
  from "3.prems"
  have "Some (r, gs') \<in> set (map (\<lambda>k. rmatch as (drop k s) g gs) (rev [lo..<Suc (rep_max P hi s)]))"
    by (intro first_some_SomeD) (simp only: rmatch.simps)
  then have "\<exists>k \<in> set (rev [lo..<Suc (rep_max P hi s)]). Some (r, gs') = rmatch as (drop k s) g gs"
    unfolding set_map image_iff .
  then obtain k where k: "k \<in> set (rev [lo..<Suc (rep_max P hi s)])"
    and m: "rmatch as (drop k s) g gs = Some (r, gs')"
    by (elim bexE) (rule that, assumption, rule sym)
  from "3.IH" [OF k m] obtain m' where "drop k s = m' @ r" by blast
  then have "s = (take k s @ m') @ r"
    by (metis append_assoc append_take_drop_id)
  then show ?case by blast
next
  case (4 as s g gs)
  then show ?case by simp
next
  case (5 as s g gs)
  then show ?case by simp
next
  case (6 as s g gs)
  then show ?case by (auto split: if_splits)
qed

lemma re_search_split:
  "re_search rx s = Some (pre, mid, post, gs) \<Longrightarrow> s = pre @ mid @ post"
proof (induction rx s arbitrary: pre mid post gs rule: re_search.induct)
  case (1 rx)
  then show ?case
    by (auto split: option.splits dest: rmatch_suffix)
next
  case (2 rx c cs)
  show ?case
  proof (cases "rmatch rx (c # cs) [] []")
    case None
    with "2.prems" obtain pre' where p: "re_search rx cs = Some (pre', mid, post, gs)"
      and pre: "pre = c # pre'"
      by (auto split: option.splits)
    from "2.IH" [OF None p] pre show ?thesis by simp
  next
    case (Some a)
    then obtain r gs0 where a: "a = (r, gs0)" by (cases a)
    from rmatch_suffix Some a obtain m where m: "c # cs = m @ r" by blast
    then have tk: "take (Suc (length cs) - length r) (c # cs) = m"
      by (metis append_eq_conv_conj diff_add_inverse2 length_Cons length_append)
    from "2.prems" Some a have "pre = []" "post = r"
      and "mid = take (Suc (length cs) - length r) (c # cs)"
      by auto
    with tk m show ?thesis by simp
  qed
qed

text \<open>
  \<open>re.sub(pattern, repl, s)\<close> for a replacement text without group references:
  every match, found from left to right without overlap, is replaced. After an empty
  match the next character is copied and the search goes on behind it.
\<close>

function re_sub :: "atom list \<Rightarrow> string \<Rightarrow> string \<Rightarrow> string" where
  "re_sub rx repl s =
     (case re_search rx s of
        None \<Rightarrow> s
      | Some (pre, mid, post, gs) \<Rightarrow>
          if mid = [] then
            (case post of [] \<Rightarrow> pre @ repl | c # cs \<Rightarrow> pre @ repl @ c # re_sub rx repl cs)
          else pre @ repl @ re_sub rx repl post)"
  by pat_completeness auto
termination
  by (relation "measure (\<lambda>(rx, repl, s). length s)") (auto dest!: re_search_split)

declare re_sub.simps [simp del]



section \<open>Paths and the file system\<close>

text \<open>
  A path is the list of its components; an absolute path starts with the empty
  component, so that joining the components with \<open>/\<close> prints it. \<open>Path\<close> parses the
  text of an argument as \<open>pathlib\<close> does on POSIX: empty components and \<open>.\<close> are
  dropped. Symbolic links, \<open>..\<close> and the relation between relative and absolute
  paths are outside the model.
\<close>

type_synonym path = "string list"

definition Path :: "string \<Rightarrow> path" where
  "Path s =
     (let parts = filter (\<lambda>p. p \<noteq> [] \<and> p \<noteq> ''.'') (split CHR ''/'' s)
      in if s \<noteq> [] \<and> hd s = CHR ''/'' then [] # parts else parts)"

text \<open>\<open>str(path)\<close>\<close>

definition str_path :: "path \<Rightarrow> string" where
  "str_path p = (if p = [] then ''.'' else if p = [[]] then ''/'' else join ''/'' p)"

text \<open>\<open>path.name\<close>: the last component.\<close>

definition name :: "path \<Rightarrow> string" where
  "name p = (if p = [] then [] else last p)"

text \<open>\<open>s.rfind(c)\<close>: the index of the last occurrence; \<open>None\<close> stands for \<open>-1\<close>.\<close>

definition rfind :: "char \<Rightarrow> string \<Rightarrow> nat option" where
  "rfind c s =
     (if c \<in> set s then Some (length s - 1 - length (takeWhile (\<lambda>x. x \<noteq> c) (rev s)))
      else None)"

text \<open>
  \<open>path.stem\<close>: the name without its last suffix. \<open>pathlib\<close> cuts the name at its
  last dot, unless that dot is the first or the last character of the name.
\<close>

definition stem :: "path \<Rightarrow> string" where
  "stem p =
     (case rfind CHR ''.'' (name p) of
        None \<Rightarrow> name p
      | Some i \<Rightarrow> if 0 < i \<and> i + 1 < length (name p) then take i (name p) else name p)"

text \<open>
  The errors that the file operations of the program can raise. None of them is
  caught anywhere in the program.
\<close>

datatype error =
    FileNotFoundError
  | IsADirectoryError
  | NotADirectoryError
  | FileExistsError
  | PermissionError
  | UnicodeDecodeError

text \<open>
  A file system is an association list from paths to nodes, in the order in which the
  operating system lists the entries. A file holds what \<open>open(..., 'r',
  encoding='utf-8')\<close> followed by \<open>read()\<close> gives: the decoded text, or the error
  raised (permission denied, bytes that are not UTF-8). The working directory \<open>[]\<close>
  and the root \<open>[[]]\<close> always exist.
\<close>

datatype node = Dir | File "error + string"

type_synonym fs = "(path \<times> node) list"

definition lookup :: "fs \<Rightarrow> path \<Rightarrow> node option" where
  "lookup fs p = (if p = [] \<or> p = [[]] then Some Dir else map_of fs p)"

text \<open>\<open>path.exists()\<close>\<close>

definition path_exists :: "fs \<Rightarrow> path \<Rightarrow> bool" where
  "path_exists fs p = (lookup fs p \<noteq> None)"

text \<open>The names of the entries directly inside a directory; none for any other path.\<close>

definition iterdir :: "fs \<Rightarrow> path \<Rightarrow> string list" where
  "iterdir fs d =
     (if lookup fs d = Some Dir
      then map last (filter (\<lambda>p. p \<noteq> [] \<and> last p \<noteq> [] \<and> butlast p = d) (map fst fs))
      else [])"

text \<open>
  \<open>html_dir.glob("*.html")\<close>: the entries directly inside the directory whose name
  ends with \<open>.html\<close> (the match is case-sensitive and not recursive), files and
  directories alike.
\<close>

definition glob_html :: "fs \<Rightarrow> path \<Rightarrow> path list" where
  "glob_html fs d = map (\<lambda>n. d @ [n]) (filter (\<lambda>n. endswith n ''.html'') (iterdir fs d))"

text \<open>
  \<open>output_dir.mkdir(parents=True, exist_ok=True)\<close>: every missing directory on the
  way is created, the shortest path first; an existing directory is accepted; a file
  in the way raises.
\<close>

fun mkdir_each :: "fs \<Rightarrow> path list \<Rightarrow> error + fs" where
  "mkdir_each fs [] = Inr fs"
| "mkdir_each fs (p # ps) =
     (case lookup fs p of
        None \<Rightarrow> mkdir_each (fs @ [(p, Dir)]) ps
      | Some Dir \<Rightarrow> mkdir_each fs ps
      | Some (File _) \<Rightarrow> Inl (if ps = [] then FileExistsError else NotADirectoryError))"

definition ancestors :: "path \<Rightarrow> path list" where
  "ancestors p = map (\<lambda>n. take n p) [1..<Suc (length p)]"

definition mkdir_parents :: "fs \<Rightarrow> path \<Rightarrow> error + fs" where
  "mkdir_parents fs p = mkdir_each fs (ancestors p)"

text \<open>\<open>open(p, 'r', encoding='utf-8')\<close> and \<open>f.read()\<close>\<close>

definition read_text :: "fs \<Rightarrow> path \<Rightarrow> error + string" where
  "read_text fs p =
     (case lookup fs p of
        None \<Rightarrow> Inl FileNotFoundError
      | Some Dir \<Rightarrow> Inl IsADirectoryError
      | Some (File r) \<Rightarrow> r)"

text \<open>\<open>open(p, 'w', encoding='utf-8')\<close> and \<open>f.write(s)\<close>: the file is created or replaced.\<close>

definition write_text :: "fs \<Rightarrow> path \<Rightarrow> string \<Rightarrow> error + fs" where
  "write_text fs p s =
     (case lookup fs p of
        Some Dir \<Rightarrow> Inl IsADirectoryError
      | _ \<Rightarrow>
          (case lookup fs (butlast p) of
             None \<Rightarrow> Inl FileNotFoundError
           | Some (File _) \<Rightarrow> Inl NotADirectoryError
           | Some Dir \<Rightarrow> Inr (AList.update p (File (Inr s)) fs)))"

section \<open>The page extractor\<close>

text \<open>
  The class \<open>DeepWikiExtractor\<close> is never instantiated and is left out. In
  \<open>extract_markdown_from_rsc\<close> the pattern texts \<open>mermaid_pattern\<close>,
  \<open>code_pattern\<close> and \<open>json_pattern\<close> are assigned and never used; the two patterns
  below are the ones handed to \<open>re.findall\<close>.
\<close>




text \<open>\<open><title>([^<]+)</title>\<close>\<close>

definition title_pattern :: "atom list" where
  "title_pattern = lit ''<title>'' @ [GOpen, Rep not_lt 1 None, GClose] @ lit ''</title>''"

text \<open>\<open>\s*\|\s*DeepWiki.*$\<close>\<close>

definition suffix_pattern :: "atom list" where
  "suffix_pattern =
     [Rep is_space 0 None, Chr CHR ''|'', Rep is_space 0 None] @ lit ''DeepWiki'' @
     [Rep not_nl 0 None, Dollar]"

text \<open>The dictionary that \<open>extract_content_simple\<close> returns.\<close>

record page =
  title :: string
  filename :: string
  html :: string

text \<open>
  The title of a page: group 1 of the first match of the title pattern, the stem of
  the file when there is no match; then the clean-up by \<open>re.sub\<close>, whichever of
  the two the title came from.
\<close>

definition extract_title :: "string \<Rightarrow> string \<Rightarrow> string" where
  "extract_title content file_stem =
     (let title_match = re_search title_pattern content;
          title = (case title_match of
                     Some (pre, mid, post, gs) \<Rightarrow> hd gs
                   | None \<Rightarrow> file_stem)
      in re_sub suffix_pattern [] title)"

definition extract_content_simple :: "fs \<Rightarrow> path \<Rightarrow> error + page" where
  "extract_content_simple fs html_file =
     (case read_text fs html_file of
        Inl e \<Rightarrow> Inl e
      | Inr content \<Rightarrow>
          Inr \<lparr>title = extract_title content (stem html_file),
               filename = stem html_file,
               html = content\<rparr>)"

section \<open>The index builder\<close>

definition index_header :: "string \<Rightarrow> string" where
  "index_header repo =
     ''# '' @ repo @ '' - DeepWiki Documentation'' @ [nl, nl] @
     ''This documentation was exported from [DeepWiki](https://deepwiki.com).'' @ [nl, nl] @
     ''## Table of Contents'' @ [nl, nl]"

text \<open>The section level of a page: the number of dot-separated parts before the first dash.\<close>

definition level :: "string \<Rightarrow> nat" where
  "level fname = length (split CHR ''.'' (hd (split CHR ''-'' fname)))"

text \<open>One pass of the loop body: the line appended to \<open>md\<close> for one page.\<close>

definition index_entry :: "page \<Rightarrow> string" where
  "index_entry p =
     (let indent = concat (replicate (level (filename p) - 1) ''  '')
      in indent @ ''- ['' @ title p @ '']('' @ filename p @ ''.md)'' @ [nl])"

definition create_index :: "page list \<Rightarrow> string \<Rightarrow> string" where
  "create_index pages repo =
     foldl (\<lambda>md p. md @ index_entry p) (index_header repo) (sort_key filename pages)"

section \<open>The driver\<close>

text \<open>
  How a run ends: \<open>sys.exit(n)\<close> or the end of \<open>main\<close> (\<open>Exit 0\<close>), or an
  exception that nothing catches. The interpreter turns an uncaught exception into a
  traceback and the exit status 1.
\<close>

datatype outcome = Exit nat | Uncaught error

fun exit_status :: "outcome \<Rightarrow> nat" where
  "exit_status (Exit n) = n"
| "exit_status (Uncaught e) = 1"

definition usage :: string where
  "usage = ''Usage: python3 convert-deepwiki.py <html-dir> [output-dir]''"

definition repo_label :: string where
  "repo_label = ''rive-app/rive-runtime''"

text \<open>
  The loop over the files found: each file is announced and read, and its record is
  appended; the first file that cannot be read ends the loop with its error. \<open>out\<close>
  collects the texts printed.
\<close>

fun process_files :: "fs \<Rightarrow> path list \<Rightarrow> page list \<Rightarrow> string list \<Rightarrow> string list \<times> (error + page list)" where
  "process_files fs [] pages out = (out, Inr pages)"
| "process_files fs (html_file # rest) pages out =
     (let out' = out @ [''Processing: '' @ name html_file]
      in case extract_content_simple fs html_file of
           Inl e \<Rightarrow> (out', Inl e)
         | Inr page_info \<Rightarrow> process_files fs rest (pages @ [page_info]) out')"

text \<open>
  \<open>main\<close>, on the argument vector and the file system: how the run ends, the file
  system it leaves, and the texts it printed.
\<close>

definition main :: "string list \<Rightarrow> fs \<Rightarrow> outcome \<times> fs \<times> string list" where
  "main argv fs =
     (if length argv < 2 then (Exit 1, fs, [usage])
      else
        let html_dir = Path (argv ! 1);
            output_dir = (if length argv > 2 then Path (argv ! 2) else html_dir @ [''markdown''])
        in if \<not> path_exists fs html_dir
           then (Exit 1, fs, [''Error: Directory not found: '' @ str_path html_dir])
           else
             (case mkdir_parents fs output_dir of
                Inl e \<Rightarrow> (Uncaught e, fs, [])
              | Inr fs1 \<Rightarrow>
                  let html_files = glob_html fs1 html_dir;
                      out1 = [''Found '' @ str_nat (length html_files) @ '' HTML files'']
                  in (case process_files fs1 html_files [] out1 of
                        (out2, Inl e) \<Rightarrow> (Uncaught e, fs1, out2)
                      | (out2, Inr pages) \<Rightarrow>
                          let index_content = create_index pages repo_label;
                              index_file = output_dir @ [''index.md'']
                          in (case write_text fs1 index_file index_content of
                                Inl e \<Rightarrow> (Uncaught e, fs1, out2)
                              | Inr fs2 \<Rightarrow>
                                  (Exit 0, fs2,
                                   out2 @
                                   [nl # ''Created index at: '' @ str_path index_file,
                                    nl # ''Note: Full markdown extraction requires JavaScript rendering.'',
                                    ''Consider using Puppeteer or Playwright for complete extraction.''])))))"

text \<open>The directories and the index file of a run, as \<open>main\<close> computes them.\<close>

definition html_dir_of :: "string list \<Rightarrow> path" where
  "html_dir_of argv = Path (argv ! 1)"

definition output_dir_of :: "string list \<Rightarrow> path" where
  "output_dir_of argv =
     (if length argv > 2 then Path (argv ! 2) else html_dir_of argv @ [''markdown''])"

definition index_file_of :: "string list \<Rightarrow> path" where
  "index_file_of argv = output_dir_of argv @ [''index.md'']"

text \<open>The texts that a run prints.\<close>

definition found_line :: "nat \<Rightarrow> string" where
  "found_line n = ''Found '' @ str_nat n @ '' HTML files''"

definition processing_line :: "path \<Rightarrow> string" where
  "processing_line f = ''Processing: '' @ name f"

definition closing_lines :: "path \<Rightarrow> string list" where
  "closing_lines index_file =
     [nl # ''Created index at: '' @ str_path index_file,
      nl # ''Note: Full markdown extraction requires JavaScript rendering.'',
      ''Consider using Puppeteer or Playwright for complete extraction.'']"

section \<open>Notions of the specification\<close>

text \<open>
  Ordinary lexicographic order on strings, by code point: the first position where
  the two strings differ decides, and a proper prefix comes first.
\<close>

fun lex_le :: "string \<Rightarrow> string \<Rightarrow> bool" where
  "lex_le [] t = True"
| "lex_le (x # xs) [] = False"
| "lex_le (x # xs) (y # ys) =
     ((of_char x :: nat) < of_char y \<or> (x = y \<and> lex_le xs ys))"

text \<open>
  The nesting depth of an identifier: one more than the number of dots in the portion
  before its first dash.
\<close>

definition depth_spec :: "string \<Rightarrow> nat" where
  "depth_spec ident = Suc (count_list (takeWhile (\<lambda>c. c \<noteq> CHR ''-'') ident) CHR ''.'')"






section \<open>Example file systems\<close>






text \<open>A directory of three pages, the second of which is not valid UTF-8.\<close>

definition fs_mixed :: fs where
  "fs_mixed =
     [([''docs''], Dir),
      ([''docs'', ''1-intro.html''], File (Inr ''<title>Intro | DeepWiki</title>'')),
      ([''docs'', ''2-setup.html''], File (Inl UnicodeDecodeError)),
      ([''docs'', ''3-usage.html''], File (Inr ''<title>Usage | DeepWiki</title>''))]"




section \<open>Properties of the index builder\<close>

lemma split_not_Nil: "split sep s \<noteq> []"
  by (induction s) auto

lemma hd_split: "hd (split sep s) = takeWhile (\<lambda>c. c \<noteq> sep) s"
  by (induction s) auto

lemma length_split: "length (split sep s) = Suc (count_list s sep)"
proof (induction s)
  case Nil
  show ?case by simp
next
  case (Cons c cs)
  have "length (tl (split sep cs)) = count_list cs sep"
    using Cons.IH by simp
  then show ?case using Cons.IH by simp
qed

lemma level_depth_spec: "level ident = depth_spec ident"
  by (simp add: level_def depth_spec_def hd_split length_split)

lemma foldl_append_concat:
  "foldl (\<lambda>md p. md @ f p) a xs = a @ concat (map f xs)"
  by (induction xs arbitrary: a) simp_all

lemma create_index_concat:
  "create_index pages repo =
     index_header repo @ concat (map index_entry (sort_key filename pages))"
  by (simp add: create_index_def foldl_append_concat)

lemma string_le_lex_le: "(s \<le> t) = lex_le s t" for s t :: string
  by (induction s t rule: lex_le.induct) (simp_all add: less_char_def)

lemma sorted_lex_le: "sorted (xs :: string list) = sorted_wrt lex_le xs"
  by (induction xs) (simp_all add: string_le_lex_le)

text \<open>
  Claim C5. For every page record the index builder derives the nesting depth by
  splitting the identifier at its first dash, splitting the portion before it on dots
  and counting the parts, so that \<open>1.2-overview\<close> has depth 2; the index is the
  header followed by exactly one entry per record, of the form
  \<open><indent>- [<title>](<identifier>.md)\<close>, where the indent is two spaces repeated
  depth - 1 times.
\<close>

theorem index_entry_shape:
  "create_index pages repo =
     index_header repo @ concat (map index_entry (sort_key filename pages))
   \<and> mset (sort_key filename pages) = mset pages
   \<and> level (filename p) = length (split CHR ''.'' (hd (split CHR ''-'' (filename p))))
   \<and> hd (split CHR ''-'' (filename p)) = takeWhile (\<lambda>c. c \<noteq> CHR ''-'') (filename p)
   \<and> level (filename p) = depth_spec (filename p)
   \<and> index_entry p =
       concat (replicate (level (filename p) - 1) ''  '') @
       ''- ['' @ title p @ '']('' @ filename p @ ''.md)'' @ [nl]
   \<and> level ''1.2-overview'' = 2"
proof (intro conjI)
  show "create_index pages repo =
     index_header repo @ concat (map index_entry (sort_key filename pages))"
    by (rule create_index_concat)
  show "mset (sort_key filename pages) = mset pages" by simp
  show "level (filename p) = length (split CHR ''.'' (hd (split CHR ''-'' (filename p))))"
    by (simp add: level_def)
  show "hd (split CHR ''-'' (filename p)) = takeWhile (\<lambda>c. c \<noteq> CHR ''-'') (filename p)"
    by (rule hd_split)
  show "level (filename p) = depth_spec (filename p)"
    by (rule level_depth_spec)
  show "index_entry p =
       concat (replicate (level (filename p) - 1) ''  '') @
       ''- ['' @ title p @ '']('' @ filename p @ ''.md)'' @ [nl]"
    by (simp add: index_entry_def)
  show "level ''1.2-overview'' = 2"
    by (simp add: level_depth_spec depth_spec_def)
qed

text \<open>
  Claim C6. The index lists the records sorted by identifier under ordinary
  lexicographic string order, not numeric order: for every collection the entries
  appear in lexicographic order of the identifiers, and the identifiers \<open>1.10-x\<close>
  and \<open>1.2-y\<close> are emitted in that order.
\<close>

theorem index_sorted:
  "(\<exists>ps. create_index pages repo = index_header repo @ concat (map index_entry ps)
         \<and> mset ps = mset pages
         \<and> sorted_wrt lex_le (map filename ps))
   \<and> \<not> lex_le ''1.2-y'' ''1.10-x''
   \<and> create_index
        [\<lparr>title = ''Y'', filename = ''1.2-y'', html = h1\<rparr>,
         \<lparr>title = ''X'', filename = ''1.10-x'', html = h2\<rparr>] repo =
       index_header repo @ ''  - [X](1.10-x.md)'' @ [nl] @ ''  - [Y](1.2-y.md)'' @ [nl]"
proof (intro conjI)
  have "sorted (map filename (sort_key filename pages))" by simp
  then have "sorted_wrt lex_le (map filename (sort_key filename pages))"
    by (simp only: sorted_lex_le)
  then show "\<exists>ps. create_index pages repo = index_header repo @ concat (map index_entry ps)
         \<and> mset ps = mset pages
         \<and> sorted_wrt lex_le (map filename ps)"
    using create_index_concat by (intro exI [of _ "sort_key filename pages"]) simp
  show "\<not> lex_le ''1.2-y'' ''1.10-x''" by simp
  show "create_index
        [\<lparr>title = ''Y'', filename = ''1.2-y'', html = h1\<rparr>,
         \<lparr>title = ''X'', filename = ''1.10-x'', html = h2\<rparr>] repo =
       index_header repo @ ''  - [X](1.10-x.md)'' @ [nl] @ ''  - [Y](1.2-y.md)'' @ [nl]"
    by (simp add: create_index_concat index_entry_def level_depth_spec depth_spec_def)
qed

section \<open>Properties of the page extractor\<close>



section \<open>Properties of the driver\<close>

lemma main_no_args: "length argv < 2 \<Longrightarrow> main argv fs = (Exit 1, fs, [usage])"
  by (simp add: main_def)

lemma main_missing_dir:
  "2 \<le> length argv \<Longrightarrow> \<not> path_exists fs (html_dir_of argv) \<Longrightarrow>
   main argv fs = (Exit 1, fs, [''Error: Directory not found: '' @ str_path (html_dir_of argv)])"
  by (simp add: main_def html_dir_of_def Let_def)

lemma main_run:
  "2 \<le> length argv \<Longrightarrow> path_exists fs (html_dir_of argv) \<Longrightarrow>
   main argv fs =
     (case mkdir_parents fs (output_dir_of argv) of
        Inl e \<Rightarrow> (Uncaught e, fs, [])
      | Inr fs1 \<Rightarrow>
          (case process_files fs1 (glob_html fs1 (html_dir_of argv)) []
                  [found_line (length (glob_html fs1 (html_dir_of argv)))] of
             (out2, Inl e) \<Rightarrow> (Uncaught e, fs1, out2)
           | (out2, Inr pages) \<Rightarrow>
               (case write_text fs1 (index_file_of argv) (create_index pages repo_label) of
                  Inl e \<Rightarrow> (Uncaught e, fs1, out2)
                | Inr fs2 \<Rightarrow> (Exit 0, fs2, out2 @ closing_lines (index_file_of argv)))))"
  by (simp add: main_def html_dir_of_def output_dir_of_def index_file_of_def Let_def
      found_line_def closing_lines_def split: sum.splits prod.splits)


lemma process_files_fail:
  "\<forall>f \<in> set good. \<exists>p. extract_content_simple fs f = Inr p \<Longrightarrow>
   extract_content_simple fs bad = Inl e \<Longrightarrow>
   process_files fs (good @ bad # rest) pages out =
     (out @ map processing_line (good @ [bad]), Inl e)"
proof (induction good arbitrary: pages out)
  case Nil
  then show ?case by (simp add: Let_def processing_line_def)
next
  case (Cons f good)
  from Cons.prems obtain p where p: "extract_content_simple fs f = Inr p" by auto
  from Cons.prems have "\<forall>f \<in> set good. \<exists>p. extract_content_simple fs f = Inr p" by simp
  from Cons.IH [OF this Cons.prems(2)] p show ?case
    by (simp add: Let_def processing_line_def)
qed

lemma process_files_cong:
  "\<forall>f \<in> set files. read_text fs f = read_text fs' f \<Longrightarrow>
   process_files fs files pages out = process_files fs' files pages out"
proof (induction files arbitrary: pages out)
  case Nil
  show ?case by simp
next
  case (Cons f files)
  from Cons.prems have e: "extract_content_simple fs f = extract_content_simple fs' f"
    by (simp add: extract_content_simple_def)
  from Cons.prems have "\<forall>f \<in> set files. read_text fs f = read_text fs' f" by simp
  from Cons.IH [OF this] e show ?case by (simp add: Let_def split: sum.splits)
qed

lemma extract_readable:
  "(\<exists>p. extract_content_simple fs f = Inr p) = (\<exists>text. read_text fs f = Inr text)"
  by (auto simp: extract_content_simple_def split: sum.splits)

text \<open>Creating the directories: what is added, what is kept, and that a second call adds nothing.\<close>

lemma mkdir_each_append:
  "mkdir_each fs ps = Inr fs1 \<Longrightarrow>
   \<exists>new. fs1 = fs @ map (\<lambda>p. (p, Dir)) new \<and> set new \<subseteq> set ps \<and> (\<forall>p \<in> set new. lookup fs p = None)"
proof (induction ps arbitrary: fs)
  case Nil
  then show ?case by (intro exI [of _ "[]"]) simp
next
  case (Cons p ps)
  show ?case
  proof (cases "lookup fs p")
    case None
    with Cons.prems have "mkdir_each (fs @ [(p, Dir)]) ps = Inr fs1" by simp
    from Cons.IH [OF this] obtain new where new: "fs1 = (fs @ [(p, Dir)]) @ map (\<lambda>p. (p, Dir)) new"
      "set new \<subseteq> set ps" "\<forall>q \<in> set new. lookup (fs @ [(p, Dir)]) q = None" by blast
    have "\<forall>q \<in> set new. lookup fs q = None"
    proof
      fix q assume "q \<in> set new"
      with new(3) have "lookup (fs @ [(p, Dir)]) q = None" by blast
      then show "lookup fs q = None"
        by (auto simp: lookup_def split: if_splits)
    qed
    with new None show ?thesis
      by (intro exI [of _ "p # new"]) auto
  next
    case (Some n)
    show ?thesis
    proof (cases n)
      case Dir
      with Some Cons.prems have "mkdir_each fs ps = Inr fs1" by simp
      from Cons.IH [OF this] show ?thesis by auto
    next
      case (File x)
      with Some Cons.prems show ?thesis by simp
    qed
  qed
qed

lemma lookup_append_Dirs:
  "lookup (fs @ map (\<lambda>p. (p, Dir)) new) q =
     (case lookup fs q of Some n \<Rightarrow> Some n | None \<Rightarrow> if q \<in> set new then Some Dir else None)"
proof -
  have "map_of (map (\<lambda>p. (p, Dir)) new) q = (if q \<in> set new then Some Dir else None)"
    by (induction new) auto
  then show ?thesis
    by (auto simp: lookup_def map_add_def split: option.splits)
qed

lemma mkdir_each_Dirs:
  "mkdir_each fs ps = Inr fs1 \<Longrightarrow> \<forall>p \<in> set ps. lookup fs1 p = Some Dir"
proof (induction ps arbitrary: fs)
  case Nil
  show ?case by simp
next
  case (Cons p ps)
  show ?case
  proof (cases "lookup fs p")
    case None
    with Cons.prems have m: "mkdir_each (fs @ [(p, Dir)]) ps = Inr fs1" by simp
    from mkdir_each_append [OF m] obtain new where "fs1 = (fs @ [(p, Dir)]) @ map (\<lambda>p. (p, Dir)) new"
      by blast
    then have "fs1 = fs @ map (\<lambda>p. (p, Dir)) (p # new)" by simp
    then have "lookup fs1 p = Some Dir"
      using None by (simp only: lookup_append_Dirs) simp
    with Cons.IH [OF m] show ?thesis by simp
  next
    case (Some n)
    show ?thesis
    proof (cases n)
      case Dir
      with Some Cons.prems have m: "mkdir_each fs ps = Inr fs1" by simp
      from mkdir_each_append [OF m] obtain new where "fs1 = fs @ map (\<lambda>p. (p, Dir)) new"
        by blast
      then have "lookup fs1 p = Some Dir"
        using Some Dir by (simp only: lookup_append_Dirs) simp
      with Cons.IH [OF m] show ?thesis by simp
    next
      case (File x)
      with Some Cons.prems show ?thesis by simp
    qed
  qed
qed

lemma mkdir_each_idem:
  "\<forall>p \<in> set ps. lookup fs p = Some Dir \<Longrightarrow> mkdir_each fs ps = Inr fs"
  by (induction ps) auto

lemma mkdir_parents_idem:
  "mkdir_parents fs p = Inr fs1 \<Longrightarrow> mkdir_parents fs1 p = Inr fs1"
  unfolding mkdir_parents_def by (rule mkdir_each_idem) (rule mkdir_each_Dirs)



lemma mkdir_parents_lookup:
  "mkdir_parents fs p = Inr fs1 \<Longrightarrow>
   \<exists>new. fs1 = fs @ map (\<lambda>p. (p, Dir)) new \<and> set new \<subseteq> set (ancestors p)
     \<and> (\<forall>q \<in> set new. lookup fs q = None)"
  unfolding mkdir_parents_def by (rule mkdir_each_append)

lemma mkdir_parents_exists:
  "mkdir_parents fs p = Inr fs1 \<Longrightarrow> path_exists fs q \<Longrightarrow> path_exists fs1 q"
  by (auto dest!: mkdir_parents_lookup simp: path_exists_def lookup_append_Dirs)


lemma write_text_ok:
  "lookup fs (butlast p) = Some Dir \<Longrightarrow> lookup fs p \<noteq> Some Dir \<Longrightarrow>
   write_text fs p s = Inr (AList.update p (File (Inr s)) fs)"
  by (auto simp: write_text_def split: option.splits node.splits)

lemma write_text_cases:
  "write_text fs p s = Inr fs2 \<Longrightarrow>
   lookup fs (butlast p) = Some Dir \<and> lookup fs p \<noteq> Some Dir \<and> fs2 = AList.update p (File (Inr s)) fs"
  by (auto simp: write_text_def split: option.splits node.splits)

lemma index_file_not_root: "out @ [''index.md''] \<noteq> []" "out @ [''index.md''] \<noteq> [[]]"
  by (cases out; simp)+

lemma lookup_update_index:
  "lookup (AList.update (out @ [''index.md'']) v fs) q =
     (if q = out @ [''index.md''] then Some v else lookup fs q)"
  by (cases out) (auto simp: lookup_def update_conv')

lemma not_html_index: "\<not> endswith ''index.md'' ''.html''"
  by (simp add: endswith_def)

lemma glob_html_write:
  assumes "lookup fs (out @ [''index.md'']) \<noteq> Some Dir"
  shows "glob_html (AList.update (out @ [''index.md'']) (File x) fs) d = glob_html fs d"
proof (cases "d = out @ [''index.md'']")
  case True
  with assms show ?thesis
    by (simp add: glob_html_def iterdir_def lookup_update_index)
next
  case False
  let ?idx = "out @ [''index.md'']"
  let ?Q = "\<lambda>p. p \<noteq> [] \<and> last p \<noteq> [] \<and> butlast p = d"
  have l: "lookup (AList.update ?idx (File x) fs) d = lookup fs d"
    using False by (simp add: lookup_update_index)
  have "filter (\<lambda>n. endswith n ''.html'') (map last (filter ?Q (map fst (AList.update ?idx (File x) fs)))) =
        filter (\<lambda>n. endswith n ''.html'') (map last (filter ?Q (map fst fs)))"
    by (simp add: update_keys not_html_index)
  then show ?thesis
    by (simp add: glob_html_def iterdir_def l)
qed

lemma glob_html_names:
  "f \<in> set (glob_html fs d) \<Longrightarrow> \<exists>n. f = d @ [n] \<and> endswith n ''.html''"
  by (auto simp: glob_html_def)

lemma glob_html_not_index: "f \<in> set (glob_html fs d) \<Longrightarrow> f \<noteq> out @ [''index.md'']"
  by (auto dest!: glob_html_names simp: not_html_index)

lemma read_text_write:
  "f \<noteq> out @ [''index.md''] \<Longrightarrow>
   read_text (AList.update (out @ [''index.md'']) v fs) f = read_text fs f"
  by (simp add: read_text_def lookup_update_index)

lemma ancestors_length: "q \<in> set (ancestors p) \<Longrightarrow> length q \<le> length p"
  by (auto simp: ancestors_def)

lemma ancestors_not_index: "q \<in> set (ancestors out) \<Longrightarrow> q \<noteq> out @ [''index.md'']"
  by (auto dest!: ancestors_length)

text \<open>A second run on the file system that a first run reached a given stage on.\<close>

lemma rerun_after_mkdir:
  assumes len: "2 \<le> length argv" and ex: "path_exists fs (html_dir_of argv)"
    and mk: "mkdir_parents fs (output_dir_of argv) = Inr fs1"
  shows "main argv fs1 =
     (case process_files fs1 (glob_html fs1 (html_dir_of argv)) []
                  [found_line (length (glob_html fs1 (html_dir_of argv)))] of
             (out2, Inl e) \<Rightarrow> (Uncaught e, fs1, out2)
           | (out2, Inr pages) \<Rightarrow>
               (case write_text fs1 (index_file_of argv) (create_index pages repo_label) of
                  Inl e \<Rightarrow> (Uncaught e, fs1, out2)
                | Inr fs2 \<Rightarrow> (Exit 0, fs2, out2 @ closing_lines (index_file_of argv))))"
proof -
  from mkdir_parents_exists [OF mk ex] have ex1: "path_exists fs1 (html_dir_of argv)" .
  from mkdir_parents_idem [OF mk] have mk1: "mkdir_parents fs1 (output_dir_of argv) = Inr fs1" .
  show ?thesis
    by (simp add: main_run [OF len ex1] mk1)
qed

lemma rerun_after_write:
  assumes len: "2 \<le> length argv" and ex: "path_exists fs (html_dir_of argv)"
    and mk: "mkdir_parents fs (output_dir_of argv) = Inr fs1"
    and pr: "process_files fs1 (glob_html fs1 (html_dir_of argv)) []
                  [found_line (length (glob_html fs1 (html_dir_of argv)))] = (out2, Inr pages)"
    and wr: "write_text fs1 (index_file_of argv) (create_index pages repo_label) = Inr fs2"
  shows "main argv fs2 = (Exit 0, fs2, out2 @ closing_lines (index_file_of argv))"
proof -
  let ?idx = "output_dir_of argv @ [''index.md'']"
  let ?v = "File (Inr (create_index pages repo_label))"
  from write_text_cases [OF wr]
  have par: "lookup fs1 (output_dir_of argv) = Some Dir"
    and nd: "lookup fs1 ?idx \<noteq> Some Dir"
    and fs2: "fs2 = AList.update ?idx ?v fs1"
    by (simp_all add: index_file_of_def)
  from mkdir_parents_exists [OF mk ex] have "path_exists fs1 (html_dir_of argv)" .
  then have ex2: "path_exists fs2 (html_dir_of argv)"
    by (simp add: path_exists_def fs2 lookup_update_index)
  from mk have "\<forall>q \<in> set (ancestors (output_dir_of argv)). lookup fs1 q = Some Dir"
    unfolding mkdir_parents_def by (rule mkdir_each_Dirs)
  then have "\<forall>q \<in> set (ancestors (output_dir_of argv)). lookup fs2 q = Some Dir"
    by (auto simp: fs2 lookup_update_index dest: ancestors_not_index)
  then have mk2: "mkdir_parents fs2 (output_dir_of argv) = Inr fs2"
    unfolding mkdir_parents_def by (rule mkdir_each_idem)
  have gl: "glob_html fs2 (html_dir_of argv) = glob_html fs1 (html_dir_of argv)"
    unfolding fs2 by (rule glob_html_write [OF nd])
  have "\<forall>f \<in> set (glob_html fs1 (html_dir_of argv)). read_text fs2 f = read_text fs1 f"
    unfolding fs2 by (auto intro!: read_text_write dest: glob_html_not_index)
  then have pr2: "process_files fs2 (glob_html fs1 (html_dir_of argv)) []
                  [found_line (length (glob_html fs1 (html_dir_of argv)))] = (out2, Inr pages)"
    using pr process_files_cong by metis
  have par2: "lookup fs2 (butlast ?idx) = Some Dir"
    using par by (simp add: fs2 lookup_update_index)
  have nd2: "lookup fs2 ?idx \<noteq> Some Dir"
    by (simp add: fs2 lookup_update_index)
  have wr2: "write_text fs2 (index_file_of argv) (create_index pages repo_label) = Inr fs2"
    unfolding index_file_of_def using write_text_ok [OF par2 nd2] by (simp add: fs2)
  show ?thesis
    by (simp add: main_run [OF len ex2] mk2 gl pr2 wr2)
qed

text \<open>
  Claim C9. The converter is idempotent as a whole run: a second run with the same
  arguments, on the file system that the first run left, ends the same way, prints the
  same and leaves every file as the first run left it, so the output files are
  byte-identical.
\<close>

theorem run_idempotent: "main argv (fst (snd (main argv fs))) = main argv fs"
proof (cases "length argv < 2")
  case True
  then show ?thesis by (simp add: main_no_args)
next
  case False
  then have len: "2 \<le> length argv" by simp
  show ?thesis
  proof (cases "path_exists fs (html_dir_of argv)")
    case False
    with len show ?thesis by (simp add: main_missing_dir)
  next
    case ex: True
    show ?thesis
    proof (cases "mkdir_parents fs (output_dir_of argv)")
      case (Inl e)
      then show ?thesis by (simp add: main_run [OF len ex])
    next
      case mk: (Inr fs1)
      obtain out2 r where pr: "process_files fs1 (glob_html fs1 (html_dir_of argv)) []
            [found_line (length (glob_html fs1 (html_dir_of argv)))] = (out2, r)"
        by (cases "process_files fs1 (glob_html fs1 (html_dir_of argv)) []
            [found_line (length (glob_html fs1 (html_dir_of argv)))]")
      show ?thesis
      proof (cases r)
        case (Inl e)
        with pr mk show ?thesis
          by (simp add: main_run [OF len ex] rerun_after_mkdir [OF len ex mk])
      next
        case pages: (Inr pages)
        show ?thesis
        proof (cases "write_text fs1 (index_file_of argv) (create_index pages repo_label)")
          case (Inl e)
          with pr pages mk show ?thesis
            by (simp add: main_run [OF len ex] rerun_after_mkdir [OF len ex mk])
        next
          case wr: (Inr fs2)
          from pr pages have pr': "process_files fs1 (glob_html fs1 (html_dir_of argv)) []
            [found_line (length (glob_html fs1 (html_dir_of argv)))] = (out2, Inr pages)" by simp
          from rerun_after_write [OF len ex mk pr' wr] pr' wr mk show ?thesis
            by (simp add: main_run [OF len ex])
        qed
      qed
    qed
  qed
qed














text \<open>
  Claim C2, as the code has it. The error raised for a file that cannot be read is
  the result of \<open>extract_content_simple\<close>, and nothing catches it: the run ends
  at the first such file with that error (exit status 1). The file system is left as
  it was after the output directory was created, without an index, and the files
  behind the unreadable one are not processed. The driver prints nothing about the
  failure; its last text is the \<open>Processing\<close> line of that file.
\<close>

theorem unreadable_file_aborts:
  "2 \<le> length argv \<and> path_exists fs (html_dir_of argv)
   \<and> mkdir_parents fs (output_dir_of argv) = Inr fs1
   \<and> glob_html fs1 (html_dir_of argv) = good @ bad # rest
   \<and> (\<forall>f \<in> set good. \<exists>text. read_text fs1 f = Inr text)
   \<and> read_text fs1 bad = Inl e
   \<longrightarrow> extract_content_simple fs1 bad = Inl e
       \<and> main argv fs =
           (Uncaught e, fs1,
            found_line (length (good @ bad # rest)) # map processing_line (good @ [bad]))
       \<and> exit_status (fst (main argv fs)) = 1"
proof (intro impI)
  assume a: "2 \<le> length argv \<and> path_exists fs (html_dir_of argv)
   \<and> mkdir_parents fs (output_dir_of argv) = Inr fs1
   \<and> glob_html fs1 (html_dir_of argv) = good @ bad # rest
   \<and> (\<forall>f \<in> set good. \<exists>text. read_text fs1 f = Inr text)
   \<and> read_text fs1 bad = Inl e"
  then have len: "2 \<le> length argv" and ex: "path_exists fs (html_dir_of argv)"
    and mk: "mkdir_parents fs (output_dir_of argv) = Inr fs1"
    and g: "glob_html fs1 (html_dir_of argv) = good @ bad # rest"
    and rd: "\<forall>f \<in> set good. \<exists>text. read_text fs1 f = Inr text"
    and bad: "read_text fs1 bad = Inl e" by simp_all
  from bad have b: "extract_content_simple fs1 bad = Inl e"
    by (simp add: extract_content_simple_def)
  from rd have "\<forall>f \<in> set good. \<exists>p. extract_content_simple fs1 f = Inr p"
    by (simp add: extract_readable)
  note pr = process_files_fail [OF this b]
  have m: "main argv fs =
           (Uncaught e, fs1,
            found_line (length (good @ bad # rest)) # map processing_line (good @ [bad]))"
    by (simp add: main_run [OF len ex] mk g pr)
  from b m show "extract_content_simple fs1 bad = Inl e
       \<and> main argv fs =
           (Uncaught e, fs1,
            found_line (length (good @ bad # rest)) # map processing_line (good @ [bad]))
       \<and> exit_status (fst (main argv fs)) = 1"
    by simp
qed

text \<open>
  The claim as stated says that the run goes on. With an undecodable second page
  between two readable ones, the run ends at the second page, the third is never
  processed and no index is written.
\<close>

theorem unreadable_file_aborts_counterexample:
  "read_text fs_mixed [''docs'', ''2-setup.html''] = Inl UnicodeDecodeError
   \<and> read_text fs_mixed [''docs'', ''3-usage.html''] = Inr ''<title>Usage | DeepWiki</title>''
   \<and> main [''convert-deepwiki.py'', ''docs''] fs_mixed =
       (Uncaught UnicodeDecodeError,
        fs_mixed @ [([''docs'', ''markdown''], Dir)],
        [''Found 3 HTML files'', ''Processing: 1-intro.html'', ''Processing: 2-setup.html''])
   \<and> lookup (fst (snd (main [''convert-deepwiki.py'', ''docs''] fs_mixed)))
        [''docs'', ''markdown'', ''index.md''] = None"
  by code_simp

theorem unreadable_file_aborts_witness:
  "2 \<le> length [''convert-deepwiki.py'', ''docs'']
   \<and> path_exists fs_mixed (html_dir_of [''convert-deepwiki.py'', ''docs''])
   \<and> mkdir_parents fs_mixed (output_dir_of [''convert-deepwiki.py'', ''docs'']) =
       Inr (fs_mixed @ [([''docs'', ''markdown''], Dir)])
   \<and> glob_html (fs_mixed @ [([''docs'', ''markdown''], Dir)])
        (html_dir_of [''convert-deepwiki.py'', ''docs'']) =
       [[''docs'', ''1-intro.html'']] @ [''docs'', ''2-setup.html''] # [[''docs'', ''3-usage.html'']]
   \<and> read_text (fs_mixed @ [([''docs'', ''markdown''], Dir)]) [''docs'', ''2-setup.html''] =
       Inl UnicodeDecodeError
   \<and> main [''convert-deepwiki.py'', ''docs''] fs_mixed =
       (Uncaught UnicodeDecodeError, fs_mixed @ [([''docs'', ''markdown''], Dir)],
        found_line 3 # map processing_line [[''docs'', ''1-intro.html''], [''docs'', ''2-setup.html'']])
   \<and> exit_status (fst (main [''convert-deepwiki.py'', ''docs''] fs_mixed)) = 1"
proof -
  let ?argv = "[''convert-deepwiki.py'', ''docs'']"
  let ?fs1 = "fs_mixed @ [([''docs'', ''markdown''], Dir)]"
  let ?good = "[[''docs'', ''1-intro.html'']]"
  let ?bad = "[''docs'', ''2-setup.html'']"
  let ?rest = "[[''docs'', ''3-usage.html'']]"
  have h1: "2 \<le> length ?argv" by simp
  have h2: "path_exists fs_mixed (html_dir_of ?argv)" by code_simp
  have h3: "mkdir_parents fs_mixed (output_dir_of ?argv) = Inr ?fs1" by code_simp
  have h4: "glob_html ?fs1 (html_dir_of ?argv) = ?good @ ?bad # ?rest" by code_simp
  have r: "read_text ?fs1 [''docs'', ''1-intro.html''] = Inr ''<title>Intro | DeepWiki</title>''"
    by code_simp
  then have h5: "\<forall>f \<in> set ?good. \<exists>text. read_text ?fs1 f = Inr text" by simp
  have h6: "read_text ?fs1 ?bad = Inl UnicodeDecodeError" by code_simp
  from unreadable_file_aborts [of ?argv fs_mixed ?fs1 ?good ?bad ?rest UnicodeDecodeError]
    h1 h2 h3 h4 h5 h6
  have "main ?argv fs_mixed =
           (Uncaught UnicodeDecodeError, ?fs1,
            found_line (length (?good @ ?bad # ?rest)) # map processing_line (?good @ [?bad]))"
    and "exit_status (fst (main ?argv fs_mixed)) = 1"
    by blast+
  with h1 h2 h3 h4 h6 show ?thesis by (simp add: numeral_3_eq_3)
qed









section \<open>Properties of the title extraction\<close>




































end
